theory Spec2Isabelle
  imports Main "HOL-Library.AList" "HOL-Library.Sublist"
begin

section \<open>The environment of \<^verbatim>\<open>index.js\<close>\<close>

text \<open>
  \<^verbatim>\<open>index.js\<close> is one Express route, \<^verbatim>\<open>GET /gemini\<close>, three helpers that keep a
  chat history per \<^verbatim>\<open>chatid\<close> in a JSON file, and a timer that removes old files. The
  effects of the code are made explicit: the file system, the trace of calls to the
  generative model and the console are fields of a \<open>world\<close> that every operation takes
  and returns. What \<^verbatim>\<open>Date.now()\<close> returns is an argument. A rejected promise or a thrown
  exception is the \<open>Inl\<close> of a sum.
\<close>

datatype error =
  ENOENT | EISDIR | ENOTDIR | EEXIST | SyntaxError | TypeError | ApiError string

subsection \<open>\<^verbatim>\<open>path.join\<close>\<close>

text \<open>
  An absolute, normalised path is the list of its segments (\<^verbatim>\<open>/srv/app\<close> is
  \<open>[''srv'', ''app'']\<close>, the root is \<open>[]\<close>). \<^verbatim>\<open>__dirname\<close> is such a path.
  \<^verbatim>\<open>path.join(dir, s)\<close> joins with a slash and normalises: empty segments and \<^verbatim>\<open>.\<close>
  are dropped, \<^verbatim>\<open>..\<close> removes the segment before it, and is dropped at the root.
\<close>

type_synonym path = "string list"

fun split_slash :: "string \<Rightarrow> string list" where
  "split_slash [] = [[]]"
| "split_slash (c # cs) =
     (if c = CHR ''/'' then [] # split_slash cs
      else (case split_slash cs of [] \<Rightarrow> [[c]] | s # ss \<Rightarrow> (c # s) # ss))"

definition normalize_segment :: "path \<Rightarrow> string \<Rightarrow> path" where
  "normalize_segment res seg =
     (if seg = [] \<or> seg = ''.'' then res
      else if seg = ''..'' then butlast res
      else res @ [seg])"

definition path_join :: "path \<Rightarrow> string \<Rightarrow> path" where
  "path_join dir s = foldl normalize_segment dir (split_slash s)"

text \<open>\<^verbatim>\<open>const historyDir = path.join(__dirname, 'history')\<close>\<close>

definition historyDir :: "path \<Rightarrow> path" where
  "historyDir dirname = path_join dirname ''history''"

text \<open>\<^verbatim>\<open>path.join(historyDir, `${chatid}.json`)\<close>, as lines 74 and 104 build it.\<close>

definition historyPathOf :: "path \<Rightarrow> string \<Rightarrow> path" where
  "historyPathOf dirname chatid = path_join (historyDir dirname) (chatid @ ''.json'')"

subsection \<open>Stored records and \<^verbatim>\<open>JSON\<close>\<close>

text \<open>
  A history file holds \<^verbatim>\<open>{ history: [[query, response], ...], timestamp }\<close>; that
  object is a \<open>chat_record\<close>, with \<^verbatim>\<open>timestamp: null\<close> as \<open>None\<close>.

  \<^verbatim>\<open>JSON.parse\<close> accepts every JSON text, not only those of records. A value it yields
  is known by what the route reads of it, its properties \<^verbatim>\<open>history\<close> and \<^verbatim>\<open>timestamp\<close>
  (line 107):
  \<^item> \<open>Record r\<close> is a value whose \<^verbatim>\<open>history\<close> is an array of pairs of strings;
  \<^item> \<open>Null\<close> is \<^verbatim>\<open>null\<close>, which has no properties;
  \<^item> \<open>NoHistory ts\<close> is any other value whose \<^verbatim>\<open>history\<close> is not an array: a number,
    a string, \<^verbatim>\<open>[]\<close>, \<^verbatim>\<open>{}\<close>, \<^verbatim>\<open>{"history": "x"}\<close>; \<open>ts\<close> is its \<^verbatim>\<open>timestamp\<close>.

  A \<^verbatim>\<open>timestamp\<close> is an integer, or \<open>None\<close> when it is \<^verbatim>\<open>null\<close> or absent. Values whose
  \<^verbatim>\<open>history\<close> is an array of anything but pairs of strings, and values whose
  \<^verbatim>\<open>timestamp\<close> is not a number, are outside the model.

  The text of a file is kept as what \<^verbatim>\<open>JSON.parse\<close> makes of it: \<open>Stringified v\<close> is
  a text that parses to \<open>v\<close> (for a record, the text \<^verbatim>\<open>JSON.stringify\<close> writes);
  \<open>Garbage s\<close> is a text \<^verbatim>\<open>JSON.parse\<close> throws on (an empty or truncated file).
\<close>

record chat_record =
  history :: "(string \<times> string) list"
  timestamp :: "int option"

datatype js_value = Record chat_record | Null | NoHistory "int option"

datatype file_text = Garbage string | Stringified js_value

definition JSON_stringify :: "chat_record \<Rightarrow> file_text" where
  "JSON_stringify r = Stringified (Record r)"

fun JSON_parse :: "file_text \<Rightarrow> error + js_value" where
  "JSON_parse (Stringified v) = Inr v"
| "JSON_parse (Garbage s) = Inl SyntaxError"

subsection \<open>The file system\<close>

text \<open>
  The file system is an association list from paths to nodes; a node is a regular file
  (its text and its birth time in milliseconds) or a directory (its birth time). The
  root always exists. The operations are those of \<^verbatim>\<open>fs.promises\<close> the code calls, with
  the errors of POSIX: \<^verbatim>\<open>unlink\<close> of a missing path is \<open>ENOENT\<close>, of a directory
  \<open>EISDIR\<close>; \<^verbatim>\<open>writeFile\<close> on an existing file replaces its text and keeps its birth
  time, and creates the file when its parent directory exists. Every operation is one
  step: permissions, and what another process sees while a file is being written, are
  not part of the model.
\<close>

datatype node = File file_text int | Dir int

type_synonym filesystem = "(path \<times> node) list"

definition node_at :: "filesystem \<Rightarrow> path \<Rightarrow> node option" where
  "node_at fs p = (if p = [] then Some (Dir 0) else map_of fs p)"

definition readFile :: "path \<Rightarrow> filesystem \<Rightarrow> error + file_text" where
  "readFile p fs =
     (case node_at fs p of
        Some (File text birth) \<Rightarrow> Inr text
      | Some (Dir birth) \<Rightarrow> Inl EISDIR
      | None \<Rightarrow> Inl ENOENT)"

definition writeFile :: "path \<Rightarrow> file_text \<Rightarrow> int \<Rightarrow> filesystem \<Rightarrow> error + filesystem" where
  "writeFile p text now fs =
     (case node_at fs p of
        Some (File old birth) \<Rightarrow> Inr (AList.update p (File text birth) fs)
      | Some (Dir birth) \<Rightarrow> Inl EISDIR
      | None \<Rightarrow>
          (case node_at fs (butlast p) of
             Some (Dir birth) \<Rightarrow> Inr (AList.update p (File text now) fs)
           | Some (File old birth) \<Rightarrow> Inl ENOTDIR
           | None \<Rightarrow> Inl ENOENT))"

definition unlink :: "path \<Rightarrow> filesystem \<Rightarrow> error + filesystem" where
  "unlink p fs =
     (case node_at fs p of
        Some (File text birth) \<Rightarrow> Inr (AList.delete p fs)
      | Some (Dir birth) \<Rightarrow> Inl EISDIR
      | None \<Rightarrow> Inl ENOENT)"

text \<open>\<^verbatim>\<open>fs.stat(p)\<close>, of which the code reads \<^verbatim>\<open>birthtimeMs\<close> only.\<close>

definition stat_birthtimeMs :: "path \<Rightarrow> filesystem \<Rightarrow> error + int" where
  "stat_birthtimeMs p fs =
     (case node_at fs p of
        Some (File text birth) \<Rightarrow> Inr birth
      | Some (Dir birth) \<Rightarrow> Inr birth
      | None \<Rightarrow> Inl ENOENT)"

definition readdir :: "path \<Rightarrow> filesystem \<Rightarrow> error + string list" where
  "readdir dir fs =
     (case node_at fs dir of
        Some (Dir birth) \<Rightarrow>
          Inr (remdups (map (last \<circ> fst) (filter (\<lambda>(p, n). p \<noteq> [] \<and> butlast p = dir) fs)))
      | Some (File text birth) \<Rightarrow> Inl ENOTDIR
      | None \<Rightarrow> Inl ENOENT)"

text \<open>
  \<^verbatim>\<open>fs.mkdir(p, { recursive: true })\<close> creates every missing ancestor and \<open>p\<close> itself,
  and succeeds when \<open>p\<close> is a directory already.
\<close>

fun mkdir_each :: "path list \<Rightarrow> int \<Rightarrow> filesystem \<Rightarrow> error + filesystem" where
  "mkdir_each [] now fs = Inr fs"
| "mkdir_each (p # ps) now fs =
     (case node_at fs p of
        Some (Dir birth) \<Rightarrow> mkdir_each ps now fs
      | Some (File text birth) \<Rightarrow> Inl (if ps = [] then EEXIST else ENOTDIR)
      | None \<Rightarrow> mkdir_each ps now (AList.update p (Dir now) fs))"

definition mkdir_recursive :: "path \<Rightarrow> int \<Rightarrow> filesystem \<Rightarrow> error + filesystem" where
  "mkdir_recursive p now fs = mkdir_each (prefixes p) now fs"

subsection \<open>The query object\<close>

text \<open>
  \<^verbatim>\<open>req.query\<close> is an object whose property values are strings here. It is the list of
  its properties in the order they were created, that is the order the parameters were
  supplied in. JavaScript enumerates the own properties of an object
  (\<^verbatim>\<open>Object.values\<close>, a rest pattern) with the keys that are array indices first, in
  ascending numeric order, then the other keys in creation order. An array index is a
  canonical decimal numeral below \<open>2^32 - 1\<close>.
\<close>

type_synonym js_object = "(string \<times> string) list"

definition is_digit :: "char \<Rightarrow> bool" where
  "is_digit c = (48 \<le> (of_char c :: nat) \<and> (of_char c :: nat) \<le> 57)"

definition digits_value :: "string \<Rightarrow> int" where
  "digits_value s = foldl (\<lambda>a c. 10 * a + ((of_char c :: int) - 48)) 0 s"

definition is_array_index :: "string \<Rightarrow> bool" where
  "is_array_index k =
     (k \<noteq> [] \<and> list_all is_digit k \<and> (k = ''0'' \<or> hd k \<noteq> CHR ''0'')
      \<and> digits_value k < 4294967295)"

definition own_properties :: "js_object \<Rightarrow> js_object" where
  "own_properties obj =
     sort_key (\<lambda>(k, v). digits_value k) (filter (\<lambda>(k, v). is_array_index k) obj)
     @ filter (\<lambda>(k, v). \<not> is_array_index k) obj"

definition get_property :: "js_object \<Rightarrow> string \<Rightarrow> string option" where
  "get_property obj k = map_of obj k"

text \<open>\<^verbatim>\<open>const { query, chatid, ...imageUrls } = req.query\<close>: the rest object.\<close>

definition rest_properties :: "string list \<Rightarrow> js_object \<Rightarrow> js_object" where
  "rest_properties taken obj = filter (\<lambda>(k, v). k \<notin> set taken) (own_properties obj)"

definition Object_values :: "js_object \<Rightarrow> string list" where
  "Object_values obj = map snd (own_properties obj)"

text \<open>
  \<^verbatim>\<open>String.prototype.toLowerCase\<close> on the bytes of a string. Only the ASCII capitals
  are mapped; no other character has a lower case among the letters of the phrases the
  route compares with.
\<close>

definition lower_char :: "char \<Rightarrow> char" where
  "lower_char c =
     (if 65 \<le> (of_char c :: nat) \<and> (of_char c :: nat) \<le> 90
      then char_of ((of_char c :: nat) + 32) else c)"

definition toLowerCase :: "string \<Rightarrow> string" where
  "toLowerCase s = map lower_char s"

subsection \<open>Content parts and the generative model\<close>

text \<open>
  The array passed to the model holds strings and image parts
  \<^verbatim>\<open>{ inlineData: { data, mimeType }, index }\<close>: \<open>InlineData data mimeType index\<close>.
\<close>

datatype part = Text string | InlineData string string nat

text \<open>\<^verbatim>\<open>Buffer.from(s).toString('base64')\<close>: RFC 4648 base64 of the bytes of \<open>s\<close>.\<close>

definition b64_digit :: "nat \<Rightarrow> char" where
  "b64_digit n =
     ''ABCDEFGHIJKLMNOPQRSTUVWXYZabcdefghijklmnopqrstuvwxyz0123456789+/'' ! n"

fun base64_bytes :: "nat list \<Rightarrow> string" where
  "base64_bytes [] = []"
| "base64_bytes [a] =
     [b64_digit (a div 4), b64_digit ((a mod 4) * 16), CHR ''='', CHR ''='']"
| "base64_bytes [a, b] =
     [b64_digit (a div 4), b64_digit ((a mod 4) * 16 + b div 16),
      b64_digit ((b mod 16) * 4), CHR ''='']"
| "base64_bytes (a # b # c # bytes) =
     [b64_digit (a div 4), b64_digit ((a mod 4) * 16 + b div 16),
      b64_digit ((b mod 16) * 4 + c div 64), b64_digit (c mod 64)] @ base64_bytes bytes"

definition toBase64 :: "string \<Rightarrow> string" where
  "toBase64 s = base64_bytes (map of_char s)"

text \<open>
  \<^verbatim>\<open>function getImageParts(imageUrls)\<close>, lines 16 to 26.
\<close>

definition getImageParts :: "js_object \<Rightarrow> part list" where
  "getImageParts imageUrls =
     map (\<lambda>(index, imageUrl). InlineData (toBase64 imageUrl) ''image/png'' (index + 1))
       (enumerate 0 (Object_values imageUrls))"

text \<open>
  The model is an oracle: what \<^verbatim>\<open>countTokens\<close> and \<^verbatim>\<open>generateContentStream\<close> answer
  for a request. A stream is the list of its chunks; a chunk is its text, or the error
  thrown when the stream or \<^verbatim>\<open>chunk.text()\<close> fails there.
\<close>

type_synonym chunk = "error + string"

record gemini =
  countTokens :: "part list \<Rightarrow> error + nat"
  generateContentStream :: "part list \<Rightarrow> error + chunk list"

text \<open>\<^verbatim>\<open>async function parseResult(result)\<close>, lines 29 to 35.\<close>

fun parseResult_from :: "string \<Rightarrow> chunk list \<Rightarrow> error + string" where
  "parseResult_from text [] = Inr text"
| "parseResult_from text (Inl e # stream) = Inl e"
| "parseResult_from text (Inr t # stream) = parseResult_from (text @ t) stream"

definition parseResult :: "chunk list \<Rightarrow> error + string" where
  "parseResult stream = parseResult_from [] stream"

subsection \<open>The world\<close>

datatype model_call = CountTokens "part list" | GenerateContentStream "part list"

datatype console_line =
  Log string | LogTokens nat | LogError string error

record world =
  files :: filesystem
  calls :: "model_call list"
  console :: "console_line list"

definition maxAgeMs :: int where
  "maxAgeMs = 60 * 60 * 1000"

section \<open>The history store\<close>

text \<open>
  \<^verbatim>\<open>async function loadChatHistoryWithTimestamp(historyPath)\<close>, lines 38 to 46. The
  body of the \<^verbatim>\<open>try\<close> is \<open>load_try\<close>, which returns whatever \<^verbatim>\<open>JSON.parse\<close> yields;
  the \<^verbatim>\<open>catch\<close> turns every error into the empty record.
\<close>

definition load_try :: "path \<Rightarrow> world \<Rightarrow> error + js_value" where
  "load_try historyPath w =
     (case readFile historyPath (files w) of
        Inl e \<Rightarrow> Inl e
      | Inr text \<Rightarrow> JSON_parse text)"

definition loadChatHistoryWithTimestamp :: "path \<Rightarrow> world \<Rightarrow> error + js_value" where
  "loadChatHistoryWithTimestamp historyPath w =
     (case load_try historyPath w of
        Inl e \<Rightarrow> Inr (Record \<lparr>history = [], timestamp = None\<rparr>)
      | Inr v \<Rightarrow> Inr v)"

text \<open>
  \<^verbatim>\<open>async function saveChatHistoryWithTimestamp(historyPath, chatHistory)\<close>, lines 49
  to 52; \<open>now\<close> is what \<^verbatim>\<open>Date.now()\<close> returns there, and the instant at which
  the file system creates the file when there is none.
\<close>

definition saveChatHistoryWithTimestamp ::
  "path \<Rightarrow> (string \<times> string) list \<Rightarrow> int \<Rightarrow> world \<Rightarrow> error + world" where
  "saveChatHistoryWithTimestamp historyPath chatHistory now w =
     (case writeFile historyPath
             (JSON_stringify \<lparr>history = chatHistory, timestamp = Some now\<rparr>) now (files w) of
        Inl e \<Rightarrow> Inl e
      | Inr fs \<Rightarrow> Inr (w\<lparr>files := fs\<rparr>))"

text \<open>
  \<^verbatim>\<open>async function deleteOldChatHistoryFiles()\<close>, lines 55 to 67. Each callback of
  \<^verbatim>\<open>forEach\<close> is an async function whose promise nobody awaits, and the callback of
  \<^verbatim>\<open>setInterval\<close> is not awaited either. When \<^verbatim>\<open>readdir\<close>, \<^verbatim>\<open>stat\<close> or \<^verbatim>\<open>unlink\<close>
  rejects, nothing catches the rejection: it is unhandled, on which Node ends the
  process. What the other callbacks have done by then is a race, so a sweep in which an
  operation fails is the error \<open>Inl e\<close> and no world. When no operation fails the
  callbacks, which act on different paths, are run one after the other.
\<close>

definition sweep_file :: "path \<Rightarrow> int \<Rightarrow> world \<Rightarrow> string \<Rightarrow> error + world" where
  "sweep_file dirname now w file =
     (let filePath = path_join (historyDir dirname) file in
      case stat_birthtimeMs filePath (files w) of
        Inl e \<Rightarrow> Inl e
      | Inr birthtimeMs \<Rightarrow>
          if now - birthtimeMs > maxAgeMs then
            (case unlink filePath (files w) of
               Inl e \<Rightarrow> Inl e
             | Inr fs \<Rightarrow>
                 Inr (w\<lparr>files := fs,
                   console := console w @ [Log (''Deleted old chat history file: '' @ file)]\<rparr>))
          else Inr w)"

fun sweep_each :: "path \<Rightarrow> int \<Rightarrow> string list \<Rightarrow> world \<Rightarrow> error + world" where
  "sweep_each dirname now [] w = Inr w"
| "sweep_each dirname now (file # names) w =
     (case sweep_file dirname now w file of
        Inl e \<Rightarrow> Inl e
      | Inr w1 \<Rightarrow> sweep_each dirname now names w1)"

definition deleteOldChatHistoryFiles :: "path \<Rightarrow> int \<Rightarrow> world \<Rightarrow> error + world" where
  "deleteOldChatHistoryFiles dirname now w =
     (case readdir (historyDir dirname) (files w) of
        Inl e \<Rightarrow> Inl e
      | Inr names \<Rightarrow> sweep_each dirname now names w)"

text \<open>\<^verbatim>\<open>setInterval(deleteOldChatHistoryFiles, 60 * 60 * 1000)\<close>, line 70: the period.\<close>

definition sweepIntervalMs :: int where
  "sweepIntervalMs = 60 * 60 * 1000"

text \<open>\<^verbatim>\<open>async function clearChatHistory(chatid)\<close>, lines 73 to 83.\<close>

definition clearChatHistory :: "path \<Rightarrow> string \<Rightarrow> world \<Rightarrow> string \<times> world" where
  "clearChatHistory dirname chatid w =
     (case unlink (historyPathOf dirname chatid) (files w) of
        Inr fs \<Rightarrow>
          (''History cleared'',
           w\<lparr>files := fs,
             console := console w @ [Log (''Deleted chat history file: '' @ chatid @ ''.json'')]\<rparr>)
      | Inl e \<Rightarrow>
          (''Error clearing history'',
           w\<lparr>console := console w @ [LogError ''Error deleting chat history: '' e]\<rparr>))"

section \<open>The route \<^verbatim>\<open>GET /gemini\<close>\<close>

text \<open>
  A response is its HTTP status and its JSON body: \<^verbatim>\<open>{ error }\<close>,
  \<^verbatim>\<open>{ response, chatid }\<close> or \<^verbatim>\<open>{ response, chatid, totalTokens }\<close>.
\<close>

datatype json_body =
  ErrorBody string | ClearBody string string | GenerateBody string string nat

record response =
  status :: nat
  body :: json_body

text \<open>\<^verbatim>\<open>query.toLowerCase().match(/^(clear|clear history|clear chat)$/)\<close>, line 95.\<close>

definition is_clear_query :: "string \<Rightarrow> bool" where
  "is_clear_query query =
     (toLowerCase query \<in> set [''clear'', ''clear history'', ''clear chat''])"

text \<open>
  Lines 110 to 114: \<^verbatim>\<open>if (timestamp && Date.now() - timestamp > 60 * 60 * 1000)\<close>
  unlinks the file. \<^verbatim>\<open>null\<close> and \<open>0\<close> are falsy. \<open>chatHistory\<close> is not touched.
\<close>

definition expire_old_history ::
  "path \<Rightarrow> string \<Rightarrow> int option \<Rightarrow> int \<Rightarrow> world \<Rightarrow> error + world" where
  "expire_old_history historyPath chatid ts now w =
     (case ts of
        None \<Rightarrow> Inr w
      | Some t \<Rightarrow>
          if t \<noteq> 0 \<and> now - t > maxAgeMs then
            (case unlink historyPath (files w) of
               Inl e \<Rightarrow> Inl e
             | Inr fs \<Rightarrow>
                 Inr (w\<lparr>files := fs,
                   console := console w
                     @ [Log (''Deleted old chat history file: '' @ chatid @ ''.json'')]\<rparr>))
          else Inr w)"

text \<open>\<^verbatim>\<open>chatHistory.flatMap(pair => pair)\<close>, line 129.\<close>

definition flattenedChatHistory :: "(string \<times> string) list \<Rightarrow> part list" where
  "flattenedChatHistory chatHistory = concat (map (\<lambda>(q, r). [Text q, Text r]) chatHistory)"

text \<open>
  Lines 126 to 134: the request \<^verbatim>\<open>[...flattenedChatHistory, query, ...imageParts]\<close> is
  sent to \<^verbatim>\<open>countTokens\<close>, then to \<^verbatim>\<open>generateContentStream\<close>, whose stream
  \<^verbatim>\<open>parseResult\<close> reads. Every call is recorded in the trace before its answer is used.
\<close>

definition ask_model ::
  "gemini \<Rightarrow> (string \<times> string) list \<Rightarrow> string \<Rightarrow> js_object \<Rightarrow> world
     \<Rightarrow> (error + string \<times> nat) \<times> world" where
  "ask_model model chatHistory query imageUrls w =
     (let imageParts = getImageParts imageUrls;
          contents = flattenedChatHistory chatHistory @ [Text query] @ imageParts;
          w1 = w\<lparr>calls := calls w @ [CountTokens contents]\<rparr>
      in case countTokens model contents of
           Inl e \<Rightarrow> (Inl e, w1)
         | Inr totalTokens \<Rightarrow>
             (let w2 = w1\<lparr>console := console w1 @ [LogTokens totalTokens],
                         calls := calls w1 @ [GenerateContentStream contents]\<rparr>
              in case generateContentStream model contents of
                   Inl e \<Rightarrow> (Inl e, w2)
                 | Inr stream \<Rightarrow>
                     (case parseResult stream of
                        Inl e \<Rightarrow> (Inl e, w2)
                      | Inr response \<Rightarrow> (Inr (response, totalTokens), w2))))"

text \<open>
  Line 107, \<^verbatim>\<open>const { history: chatHistory, timestamp } = ...\<close>: destructuring
  \<^verbatim>\<open>null\<close> throws; of any other value it reads the two properties. \<open>None\<close> for
  \<^verbatim>\<open>history\<close> is a value that is not an array.
\<close>

fun destructure :: "js_value \<Rightarrow> error + ((string \<times> string) list option \<times> int option)" where
  "destructure Null = Inl TypeError"
| "destructure (Record r) = Inr (Some (history r), timestamp r)"
| "destructure (NoHistory ts) = Inr (None, ts)"

text \<open>
  Lines 100 to 143, the generate flow. \<open>now_load\<close> is \<^verbatim>\<open>Date.now()\<close> at line 110
  and \<open>now_save\<close> is \<^verbatim>\<open>Date.now()\<close> at line 50. When \<^verbatim>\<open>history\<close> is not an array,
  \<^verbatim>\<open>chatHistory.flatMap\<close> throws at line 129, after the check of the age and before
  any call to the model.
\<close>

definition generate_try ::
  "path \<Rightarrow> gemini \<Rightarrow> int \<Rightarrow> int \<Rightarrow> string \<Rightarrow> string \<Rightarrow> js_object \<Rightarrow> world
     \<Rightarrow> (error + response) \<times> world" where
  "generate_try dirname model now_load now_save chatid query imageUrls w =
     (case mkdir_recursive (historyDir dirname) now_load (files w) of
        Inl e \<Rightarrow> (Inl e, w)
      | Inr fs \<Rightarrow>
          (let w1 = w\<lparr>files := fs\<rparr>;
               historyPath = historyPathOf dirname chatid
           in case loadChatHistoryWithTimestamp historyPath w1 of
                Inl e \<Rightarrow> (Inl e, w1)
              | Inr loaded \<Rightarrow>
                  (case destructure loaded of
                     Inl e \<Rightarrow> (Inl e, w1)
                   | Inr (history_property, ts) \<Rightarrow>
                       (case expire_old_history historyPath chatid ts now_load w1 of
                          Inl e \<Rightarrow> (Inl e, w1)
                        | Inr w2 \<Rightarrow>
                            (case history_property of
                               None \<Rightarrow> (Inl TypeError, w2)
                             | Some chatHistory \<Rightarrow>
                                 (case ask_model model chatHistory query imageUrls w2 of
                                    (Inl e, w3) \<Rightarrow> (Inl e, w3)
                                  | (Inr (response, totalTokens), w3) \<Rightarrow>
                                      (case saveChatHistoryWithTimestamp historyPath
                                              (chatHistory @ [(query, response)]) now_save w3 of
                                         Inl e \<Rightarrow> (Inl e, w3)
                                       | Inr w4 \<Rightarrow>
                                           (Inr \<lparr>status = 200,
                                                 body = GenerateBody response chatid
                                                          totalTokens\<rparr>,
                                            w4))))))))"

text \<open>
  Lines 87 to 143, the body of the \<^verbatim>\<open>try\<close>. A missing \<^verbatim>\<open>chatid\<close> is \<open>None\<close>; it and
  the empty string are falsy. A missing \<^verbatim>\<open>query\<close> makes \<^verbatim>\<open>query.toLowerCase()\<close> throw.
\<close>

definition gemini_try ::
  "path \<Rightarrow> gemini \<Rightarrow> int \<Rightarrow> int \<Rightarrow> js_object \<Rightarrow> world \<Rightarrow> (error + response) \<times> world" where
  "gemini_try dirname model now_load now_save req_query w =
     (let imageUrls = rest_properties [''query'', ''chatid''] req_query in
      case get_property req_query ''chatid'' of
        None \<Rightarrow>
          (Inr \<lparr>status = 400, body = ErrorBody ''Chat ID (passcode) is required.''\<rparr>, w)
      | Some chatid \<Rightarrow>
          if chatid = [] then
            (Inr \<lparr>status = 400, body = ErrorBody ''Chat ID (passcode) is required.''\<rparr>, w)
          else
            (case get_property req_query ''query'' of
               None \<Rightarrow> (Inl TypeError, w)
             | Some query \<Rightarrow>
                 if is_clear_query query then
                   (case clearChatHistory dirname chatid w of
                      (response, w1) \<Rightarrow>
                        (Inr \<lparr>status = 200, body = ClearBody response chatid\<rparr>, w1))
                 else generate_try dirname model now_load now_save chatid query imageUrls w))"

text \<open>Lines 85 to 148: the handler, with its \<^verbatim>\<open>catch\<close>.\<close>

definition gemini_route ::
  "path \<Rightarrow> gemini \<Rightarrow> int \<Rightarrow> int \<Rightarrow> js_object \<Rightarrow> world \<Rightarrow> response \<times> world" where
  "gemini_route dirname model now_load now_save req_query w =
     (case gemini_try dirname model now_load now_save req_query w of
        (Inr res, w1) \<Rightarrow> (res, w1)
      | (Inl e, w1) \<Rightarrow>
          (\<lparr>status = 500, body = ErrorBody ''Internal server error.''\<rparr>,
           w1\<lparr>console := console w1 @ [LogError [] e]\<rparr>))"

section \<open>Auxiliary notions and example inputs\<close>

definition is_file :: "filesystem \<Rightarrow> path \<Rightarrow> bool" where
  "is_file fs p = (case node_at fs p of Some (File text birth) \<Rightarrow> True | _ \<Rightarrow> False)"

text \<open>The application lives in \<^verbatim>\<open>/srv/app\<close>; nothing has happened yet in \<open>empty_world\<close>.\<close>

definition app_dir :: path where
  "app_dir = [''srv'', ''app'']"

definition empty_world :: world where
  "empty_world = \<lparr>files = [], calls = [], console = []\<rparr>"

text \<open>A model that counts the parts of a request and always streams two chunks.\<close>

definition helpful_model :: gemini where
  "helpful_model =
     \<lparr>countTokens = (\<lambda>contents. Inr (length contents)),
      generateContentStream = (\<lambda>contents. Inr [Inr ''Hel'', Inr ''lo''])\<rparr>"

text \<open>One conversation \<^verbatim>\<open>c1\<close> is stored, written at time 5000.\<close>

definition stored_world :: world where
  "stored_world =
     \<lparr>files =
        [([''srv''], Dir 1000), ([''srv'', ''app''], Dir 1000),
         ([''srv'', ''app'', ''history''], Dir 1000),
         ([''srv'', ''app'', ''history'', ''c1.json''],
          File (Stringified (Record \<lparr>history = [(''Hi'', ''Hello'')], timestamp = Some 5000\<rparr>)) 5000)],
      calls = [], console = []\<rparr>"

text \<open>The file of \<^verbatim>\<open>c1\<close> holds a truncated text.\<close>

definition garbled_world :: world where
  "garbled_world =
     \<lparr>files =
        [([''srv''], Dir 1000), ([''srv'', ''app''], Dir 1000),
         ([''srv'', ''app'', ''history''], Dir 1000),
         ([''srv'', ''app'', ''history'', ''c1.json''], File (Garbage ''{ hist'') 5000)],
      calls = [], console = []\<rparr>"

text \<open>
  The file of \<^verbatim>\<open>c1\<close> holds the text \<^verbatim>\<open>null\<close> and the file of \<^verbatim>\<open>c2\<close> the text \<^verbatim>\<open>{}\<close>:
  valid JSON, and no records.
\<close>

definition misshapen_world :: world where
  "misshapen_world =
     \<lparr>files =
        [([''srv''], Dir 1000), ([''srv'', ''app''], Dir 1000),
         ([''srv'', ''app'', ''history''], Dir 1000),
         ([''srv'', ''app'', ''history'', ''c1.json''], File (Stringified Null) 5000),
         ([''srv'', ''app'', ''history'', ''c2.json''], File (Stringified (NoHistory None)) 5000)],
      calls = [], console = []\<rparr>"

text \<open>A model whose token counting fails; its generation would succeed.\<close>

definition quota_model :: gemini where
  "quota_model =
     \<lparr>countTokens = (\<lambda>contents. Inl (ApiError ''quota'')),
      generateContentStream = (\<lambda>contents. Inr [Inr ''Hel'', Inr ''lo''])\<rparr>"

text \<open>No regular file is created or changed from \<open>fs\<close> to \<open>fs'\<close>.\<close>

definition no_file_written :: "filesystem \<Rightarrow> filesystem \<Rightarrow> bool" where
  "no_file_written fs fs' =
     (\<forall>p text birth. node_at fs' p = Some (File text birth) \<longrightarrow>
        node_at fs p = Some (File text birth))"



definition is_generated :: "response \<Rightarrow> bool" where
  "is_generated res =
     (status res = 200 \<and>
      (case body res of GenerateBody response chatid totalTokens \<Rightarrow> True | _ \<Rightarrow> False))"




text \<open>
  The parameters of a query other than \<^verbatim>\<open>query\<close> and \<^verbatim>\<open>chatid\<close>, in the order they
  were supplied: the images.
\<close>

definition extra_parameters :: "js_object \<Rightarrow> js_object" where
  "extra_parameters req_query = filter (\<lambda>(k, v). k \<notin> set [''query'', ''chatid'']) req_query"

text \<open>A record stands next to the history directory, in \<^verbatim>\<open>/srv/app/name.json\<close>.\<close>

definition outside_world :: world where
  "outside_world =
     \<lparr>files =
        [([''srv''], Dir 1000), ([''srv'', ''app''], Dir 1000),
         ([''srv'', ''app'', ''history''], Dir 1000),
         ([''srv'', ''app'', ''name.json''],
          File (Stringified (Record \<lparr>history = [(''not'', ''yours'')], timestamp = Some 5000\<rparr>)) 5000)],
      calls = [], console = []\<rparr>"

text \<open>
  The names \<^verbatim>\<open>readdir\<close> can return: not empty, not \<^verbatim>\<open>.\<close> or \<^verbatim>\<open>..\<close>, without a slash.
  In a well-formed file system every segment of every path is such a name.
\<close>

definition valid_name :: "string \<Rightarrow> bool" where
  "valid_name name = (name \<noteq> [] \<and> name \<noteq> ''.'' \<and> name \<noteq> ''..'' \<and> CHR ''/'' \<notin> set name)"

definition names_valid :: "filesystem \<Rightarrow> bool" where
  "names_valid fs = list_all (\<lambda>(p, n). list_all valid_name p) fs"

text \<open>A regular file whose birth time is more than \<open>maxAgeMs\<close> before \<open>now\<close>.\<close>

definition old_file :: "int \<Rightarrow> node option \<Rightarrow> bool" where
  "old_file now n =
     (case n of Some (File text birth) \<Rightarrow> now - birth > maxAgeMs | _ \<Rightarrow> False)"

text \<open>
  A directory whose birth time is more than \<open>maxAgeMs\<close> before \<open>now\<close>: the sweep
  tries to unlink it, and \<^verbatim>\<open>unlink\<close> rejects.
\<close>

definition old_directory :: "int \<Rightarrow> node option \<Rightarrow> bool" where
  "old_directory now n =
     (case n of Some (Dir birth) \<Rightarrow> now - birth > maxAgeMs | _ \<Rightarrow> False)"

text \<open>
  The conversation \<^verbatim>\<open>c1\<close> is created by a request at 1000 and continued by a request
  at 3540000, a minute before its file is an hour old.
\<close>

definition aged_world :: world where
  "aged_world =
     snd (gemini_route app_dir helpful_model 3540000 3541000
            [(''query'', ''Again''), (''chatid'', ''c1'')]
            (snd (gemini_route app_dir helpful_model 1000 2000
                    [(''query'', ''Hi''), (''chatid'', ''c1'')] empty_world)))"

text \<open>
  The history directory holds a subdirectory born at 3000000 and two records, one born
  at 5000 and one at 3000000.
\<close>

definition tidy_world :: world where
  "tidy_world =
     \<lparr>files =
        [([''srv''], Dir 1000), ([''srv'', ''app''], Dir 1000),
         ([''srv'', ''app'', ''history''], Dir 1000),
         ([''srv'', ''app'', ''history'', ''attic''], Dir 3000000),
         ([''srv'', ''app'', ''history'', ''c1.json''],
          File (Stringified (Record \<lparr>history = [(''Hi'', ''Hello'')], timestamp = Some 5000\<rparr>))
            5000),
         ([''srv'', ''app'', ''history'', ''c2.json''],
          File (Stringified (Record \<lparr>history = [(''Hi'', ''Hello'')],
                                     timestamp = Some 3000000\<rparr>))
            3000000)],
      calls = [], console = []\<rparr>"

text \<open>The same, with a subdirectory born at 1000.\<close>

definition cluttered_world :: world where
  "cluttered_world =
     \<lparr>files =
        [([''srv''], Dir 1000), ([''srv'', ''app''], Dir 1000),
         ([''srv'', ''app'', ''history''], Dir 1000),
         ([''srv'', ''app'', ''history'', ''attic''], Dir 1000),
         ([''srv'', ''app'', ''history'', ''c1.json''],
          File (Stringified (Record \<lparr>history = [(''Hi'', ''Hello'')], timestamp = Some 5000\<rparr>))
            5000),
         ([''srv'', ''app'', ''history'', ''c2.json''],
          File (Stringified (Record \<lparr>history = [(''Hi'', ''Hello'')],
                                     timestamp = Some 3000000\<rparr>))
            3000000)],
      calls = [], console = []\<rparr>"

section \<open>Facts about paths and the file system\<close>

lemma node_at_update:
  "p \<noteq> [] \<Longrightarrow> node_at (AList.update p n fs) q = (if q = p then Some n else node_at fs q)"
  by (simp add: node_at_def update_conv')

lemma node_at_delete:
  "node_at (AList.delete p fs) q = (if q = p \<and> p \<noteq> [] then None else node_at fs q)"
  by (auto simp: node_at_def delete_conv')

lemma node_at_root: "node_at fs [] = Some (Dir 0)"
  by (simp add: node_at_def)

lemma unlink_cases:
  "unlink p fs =
     (if is_file fs p then Inr (AList.delete p fs)
      else if node_at fs p = None then Inl ENOENT else Inl EISDIR)"
  by (simp add: unlink_def is_file_def split: option.splits node.splits)

lemma is_file_nonroot: "is_file fs p \<Longrightarrow> p \<noteq> []"
  by (auto simp: is_file_def node_at_def)

lemma split_slash_nonempty: "split_slash s \<noteq> []"
  by (induction s) (auto split: list.splits)

lemma split_slash_append:
  "CHR ''/'' \<notin> set t \<Longrightarrow>
     split_slash (s @ t) = butlast (split_slash s) @ [last (split_slash s) @ t]"
proof (induction s)
  case Nil
  then show ?case by (induction t) (auto split: list.splits)
next
  case (Cons c s)
  then show ?case using split_slash_nonempty[of s] split_slash_nonempty[of "s @ t"]
    by (auto split: list.splits simp: butlast_append)
qed

lemma historyDir_eq: "historyDir dirname = dirname @ [''history'']"
  by (simp add: historyDir_def path_join_def normalize_segment_def)

text \<open>
  The last segment of a history path is the part of the \<^verbatim>\<open>chatid\<close> after its last
  slash, with \<^verbatim>\<open>.json\<close> appended; what precedes it is normalised against the history
  directory.
\<close>

lemma historyPathOf_eq:
  "historyPathOf dirname chatid =
     foldl normalize_segment (dirname @ [''history'']) (butlast (split_slash chatid))
       @ [last (split_slash chatid) @ ''.json'']"
proof -
  have "split_slash (chatid @ ''.json'')
      = butlast (split_slash chatid) @ [last (split_slash chatid) @ ''.json'']"
    by (rule split_slash_append) simp
  then show ?thesis
    by (simp add: historyPathOf_def historyDir_eq path_join_def normalize_segment_def)
qed

lemma historyPathOf_nonroot: "historyPathOf dirname chatid \<noteq> []"
  by (simp add: historyPathOf_eq)

lemma historyPathOf_c1:
  "historyPathOf app_dir ''c1'' = [''srv'', ''app'', ''history'', ''c1.json'']"
  by code_simp

section \<open>The store: load and clear\<close>

lemma load_cases:
  "loadChatHistoryWithTimestamp p w =
     Inr (case node_at (files w) p of
            Some (File (Stringified v) birth) \<Rightarrow> v
          | _ \<Rightarrow> Record \<lparr>history = [], timestamp = None\<rparr>)"
  by (simp add: loadChatHistoryWithTimestamp_def load_try_def readFile_def
      split: option.splits node.splits file_text.splits)

lemma clearChatHistory_cases:
  "clearChatHistory dirname chatid w =
     (if is_file (files w) (historyPathOf dirname chatid)
      then (''History cleared'',
            w\<lparr>files := AList.delete (historyPathOf dirname chatid) (files w),
              console := console w
                @ [Log (''Deleted chat history file: '' @ chatid @ ''.json'')]\<rparr>)
      else (''Error clearing history'',
            w\<lparr>console := console w @ [LogError ''Error deleting chat history: ''
               (if node_at (files w) (historyPathOf dirname chatid) = None
                then ENOENT else EISDIR)]\<rparr>))"
  by (simp add: clearChatHistory_def unlink_cases)

text \<open>
  C7, as the claim states it, fails: stored data can be corrupt and still be valid JSON.
  Line 41 returns whatever \<^verbatim>\<open>JSON.parse\<close> yields, so for a file holding \<^verbatim>\<open>null\<close> the
  load returns \<^verbatim>\<open>null\<close>, and for a file holding \<^verbatim>\<open>{}\<close> it returns that object, not the
  empty record. A generate request for such a \<^verbatim>\<open>chatid\<close> is then answered HTTP 500
  without a call to the model.
\<close>

theorem load_returns_misshapen_value:
  "loadChatHistoryWithTimestamp (historyPathOf app_dir ''c1'') misshapen_world = Inr Null
   \<and> loadChatHistoryWithTimestamp (historyPathOf app_dir ''c1'') misshapen_world
        \<noteq> Inr (Record \<lparr>history = [], timestamp = None\<rparr>)
   \<and> loadChatHistoryWithTimestamp (historyPathOf app_dir ''c2'') misshapen_world
        = Inr (NoHistory None)
   \<and> gemini_route app_dir helpful_model 6000 7000
        [(''query'', ''Hi''), (''chatid'', ''c1'')] misshapen_world =
       (\<lparr>status = 500, body = ErrorBody ''Internal server error.''\<rparr>,
        misshapen_world\<lparr>console := [LogError [] TypeError]\<rparr>)
   \<and> gemini_route app_dir helpful_model 6000 7000
        [(''query'', ''Hi''), (''chatid'', ''c2'')] misshapen_world =
       (\<lparr>status = 500, body = ErrorBody ''Internal server error.''\<rparr>,
        misshapen_world\<lparr>console := [LogError [] TypeError]\<rparr>)"
  by code_simp

text \<open>
  C7, amended. \<^verbatim>\<open>loadChatHistoryWithTimestamp\<close> always returns a value and never an
  error. When the path holds no regular file with a text that \<^verbatim>\<open>JSON.parse\<close> accepts
  (nothing there, a directory, or a text \<^verbatim>\<open>JSON.parse\<close> rejects) it returns the empty
  record, \<^verbatim>\<open>history: []\<close> and \<^verbatim>\<open>timestamp: null\<close>. When the file holds valid JSON it
  returns the parsed value as it is, record or not. After \<^verbatim>\<open>clearChatHistory\<close> for a
  \<^verbatim>\<open>chatid\<close>, loading the path of that \<^verbatim>\<open>chatid\<close> returns the empty record, whatever
  was stored before.
\<close>

theorem load_never_fails:
  "(\<exists>v. loadChatHistoryWithTimestamp p w = Inr v)
   \<and> ((\<forall>v birth. node_at (files w) p \<noteq> Some (File (Stringified v) birth)) \<longrightarrow>
        loadChatHistoryWithTimestamp p w = Inr (Record \<lparr>history = [], timestamp = None\<rparr>))
   \<and> (\<forall>v birth. node_at (files w) p = Some (File (Stringified v) birth) \<longrightarrow>
        loadChatHistoryWithTimestamp p w = Inr v)
   \<and> loadChatHistoryWithTimestamp (historyPathOf dirname chatid)
        (snd (clearChatHistory dirname chatid w)) =
       Inr (Record \<lparr>history = [], timestamp = None\<rparr>)"
proof (intro conjI impI allI)
  show "\<exists>v. loadChatHistoryWithTimestamp p w = Inr v"
    by (simp add: load_cases)
next
  assume "\<forall>v birth. node_at (files w) p \<noteq> Some (File (Stringified v) birth)"
  then show "loadChatHistoryWithTimestamp p w =
      Inr (Record \<lparr>history = [], timestamp = None\<rparr>)"
    by (simp add: load_cases split: option.splits node.splits file_text.splits)
next
  fix v birth
  assume "node_at (files w) p = Some (File (Stringified v) birth)"
  then show "loadChatHistoryWithTimestamp p w = Inr v"
    by (simp add: load_cases)
next
  show "loadChatHistoryWithTimestamp (historyPathOf dirname chatid)
        (snd (clearChatHistory dirname chatid w)) =
       Inr (Record \<lparr>history = [], timestamp = None\<rparr>)"
    by (auto simp: load_cases clearChatHistory_cases node_at_delete is_file_def
        historyPathOf_nonroot split: option.splits node.splits file_text.splits)
qed

theorem load_never_fails_witness:
  "loadChatHistoryWithTimestamp (historyPathOf app_dir ''c1'') garbled_world =
     Inr (Record \<lparr>history = [], timestamp = None\<rparr>)
   \<and> loadChatHistoryWithTimestamp (historyPathOf app_dir ''c1'') stored_world =
     Inr (Record \<lparr>history = [(''Hi'', ''Hello'')], timestamp = Some 5000\<rparr>)
   \<and> loadChatHistoryWithTimestamp (historyPathOf app_dir ''c1'') misshapen_world = Inr Null
   \<and> loadChatHistoryWithTimestamp (historyPathOf app_dir ''c1'')
       (snd (clearChatHistory app_dir ''c1'' stored_world)) =
     Inr (Record \<lparr>history = [], timestamp = None\<rparr>)"
proof -
  have a: "\<forall>v birth. node_at (files garbled_world) (historyPathOf app_dir ''c1'')
          \<noteq> Some (File (Stringified v) birth)"
    by (simp add: historyPathOf_c1 garbled_world_def node_at_def)
  have b: "node_at (files stored_world) (historyPathOf app_dir ''c1'') =
      Some (File (Stringified
        (Record \<lparr>history = [(''Hi'', ''Hello'')], timestamp = Some 5000\<rparr>)) 5000)"
    by (simp add: historyPathOf_c1 stored_world_def node_at_def)
  have c: "node_at (files misshapen_world) (historyPathOf app_dir ''c1'') =
      Some (File (Stringified Null) 5000)"
    by (simp add: historyPathOf_c1 misshapen_world_def node_at_def)
  show ?thesis
    using load_never_fails [of "historyPathOf app_dir ''c1''" garbled_world app_dir "''c1''"]
      load_never_fails [of "historyPathOf app_dir ''c1''" stored_world app_dir "''c1''"]
      load_never_fails [of "historyPathOf app_dir ''c1''" misshapen_world app_dir "''c1''"]
      a b c
    by blast
qed

section \<open>The route: validation and clearing\<close>

text \<open>
  C6. When \<^verbatim>\<open>chatid\<close> is absent from the query or empty, the route answers HTTP 400 with
  \<^verbatim>\<open>{ error: "Chat ID (passcode) is required." }\<close> and the world is the one it started
  in: no file is read, written or deleted, the model is not called, nothing is logged,
  and neither the clear flow nor the generate flow runs. The query parameter plays no
  part, present or not.
\<close>

theorem missing_chatid_bad_request:
  assumes "get_property req_query ''chatid'' = None
           \<or> get_property req_query ''chatid'' = Some []"
  shows "gemini_route dirname model now_load now_save req_query w =
           (\<lparr>status = 400, body = ErrorBody ''Chat ID (passcode) is required.''\<rparr>, w)"
  using assms by (auto simp: gemini_route_def gemini_try_def)

theorem missing_chatid_bad_request_witness:
  "gemini_route app_dir helpful_model 5000 6000 [(''query'', ''Hi'')] stored_world =
     (\<lparr>status = 400, body = ErrorBody ''Chat ID (passcode) is required.''\<rparr>, stored_world)
   \<and> gemini_route app_dir helpful_model 5000 6000
        [(''query'', ''Hi''), (''chatid'', [])] stored_world =
     (\<lparr>status = 400, body = ErrorBody ''Chat ID (passcode) is required.''\<rparr>, stored_world)"
proof -
  have a: "get_property [(''query'', ''Hi'')] ''chatid'' = None"
    by (simp add: get_property_def)
  have b: "get_property [(''query'', ''Hi''), (''chatid'', [])] ''chatid'' = Some []"
    by (simp add: get_property_def)
  show ?thesis
    using missing_chatid_bad_request [OF disjI1, OF a]
      missing_chatid_bad_request [OF disjI2, OF b]
    by simp
qed

text \<open>
  C3, as the claim states it, fails: a clear request for a \<^verbatim>\<open>chatid\<close> that has no stored
  record is answered \<^verbatim>\<open>{ response: "Error clearing history", chatid }\<close>, since \<^verbatim>\<open>unlink\<close>
  rejects with \<open>ENOENT\<close> and the \<^verbatim>\<open>catch\<close> of \<^verbatim>\<open>clearChatHistory\<close> treats every error alike.
\<close>

theorem clear_without_record_reports_error:
  "\<not> is_file (files empty_world) (historyPathOf app_dir ''c1'')
   \<and> gemini_route app_dir helpful_model 5000 6000
        [(''query'', ''clear history''), (''chatid'', ''c1'')] empty_world =
       (\<lparr>status = 200, body = ClearBody ''Error clearing history'' ''c1''\<rparr>,
        \<lparr>files = [], calls = [],
         console = [LogError ''Error deleting chat history: '' ENOENT]\<rparr>)"
  by code_simp

text \<open>
  C3, amended. A request with a non-empty \<^verbatim>\<open>chatid\<close> whose query is \<^verbatim>\<open>clear\<close>,
  \<^verbatim>\<open>clear history\<close> or \<^verbatim>\<open>clear chat\<close> in any letter case is answered HTTP 200 with
  \<^verbatim>\<open>{ response, chatid }\<close> and makes no model call. The response is
  \<^verbatim>\<open>History cleared\<close> exactly when a regular file stood at the path of the \<^verbatim>\<open>chatid\<close>,
  and that file is then deleted; otherwise (no record, or a deletion that fails for
  another reason) the response is \<^verbatim>\<open>Error clearing history\<close> and the files are unchanged.
\<close>

theorem clear_request_reply:
  assumes "get_property req_query ''chatid'' = Some chatid" and "chatid \<noteq> []"
    and "get_property req_query ''query'' = Some query" and "is_clear_query query"
  shows "fst (gemini_route dirname model now_load now_save req_query w) =
           \<lparr>status = 200,
            body = ClearBody
              (if is_file (files w) (historyPathOf dirname chatid)
               then ''History cleared'' else ''Error clearing history'') chatid\<rparr>
         \<and> calls (snd (gemini_route dirname model now_load now_save req_query w)) = calls w
         \<and> files (snd (gemini_route dirname model now_load now_save req_query w)) =
             (if is_file (files w) (historyPathOf dirname chatid)
              then AList.delete (historyPathOf dirname chatid) (files w) else files w)"
  using assms by (simp add: gemini_route_def gemini_try_def clearChatHistory_cases)

theorem clear_request_reply_witness:
  "fst (gemini_route app_dir helpful_model 5000 6000
          [(''query'', ''Clear History''), (''chatid'', ''c1'')] stored_world) =
     \<lparr>status = 200, body = ClearBody ''History cleared'' ''c1''\<rparr>
   \<and> fst (gemini_route app_dir helpful_model 5000 6000
          [(''query'', ''Clear History''), (''chatid'', ''c1'')] empty_world) =
     \<lparr>status = 200, body = ClearBody ''Error clearing history'' ''c1''\<rparr>
   \<and> calls (snd (gemini_route app_dir helpful_model 5000 6000
          [(''query'', ''Clear History''), (''chatid'', ''c1'')] stored_world)) = []"
proof -
  let ?q = "[(''query'', ''Clear History''), (''chatid'', ''c1'')]"
  have a: "get_property ?q ''chatid'' = Some ''c1''" and b: "''c1'' \<noteq> []"
    and c: "get_property ?q ''query'' = Some ''Clear History''"
    by (simp_all add: get_property_def)
  have d: "is_clear_query ''Clear History''"
    by code_simp
  have e: "is_file (files stored_world) (historyPathOf app_dir ''c1'')"
    by code_simp
  have f: "\<not> is_file (files empty_world) (historyPathOf app_dir ''c1'')"
    by code_simp
  have g: "calls stored_world = []"
    by (simp add: stored_world_def)
  show ?thesis
    using clear_request_reply [OF a b c d, where dirname = app_dir and model = helpful_model
        and now_load = 5000 and now_save = 6000 and w = stored_world]
      clear_request_reply [OF a b c d, where dirname = app_dir and model = helpful_model
        and now_load = 5000 and now_save = 6000 and w = empty_world] e f g
    by simp
qed

section \<open>The generate flow\<close>

lemma mkdir_each_node:
  "mkdir_each ps now fs = Inr fs' \<Longrightarrow>
     node_at fs' q = node_at fs q \<or> (node_at fs q = None \<and> node_at fs' q = Some (Dir now))"
proof (induction ps arbitrary: fs)
  case Nil
  then show ?case by simp
next
  case (Cons p ps)
  show ?case
  proof (cases "node_at fs p")
    case None
    then have p: "p \<noteq> []" by (auto simp: node_at_def)
    from Cons.prems None have "mkdir_each ps now (AList.update p (Dir now) fs) = Inr fs'"
      by simp
    from Cons.IH [OF this] show ?thesis
      using None p by (auto simp: node_at_update split: if_splits)
  next
    case (Some n)
    with Cons show ?thesis by (cases n) auto
  qed
qed

lemma load_after_mkdir:
  assumes "mkdir_recursive d now (files w) = Inr fs"
  shows "loadChatHistoryWithTimestamp p (w\<lparr>files := fs\<rparr>) = loadChatHistoryWithTimestamp p w"
  using mkdir_each_node [OF assms [unfolded mkdir_recursive_def], of p]
  by (auto simp: load_cases)

lemma no_file_written_refl: "no_file_written fs fs"
  by (simp add: no_file_written_def)

lemma no_file_written_trans:
  "no_file_written fs fs' \<Longrightarrow> no_file_written fs' fs'' \<Longrightarrow> no_file_written fs fs''"
  by (simp add: no_file_written_def)

lemma no_file_written_mkdir:
  "mkdir_recursive d now fs = Inr fs' \<Longrightarrow> no_file_written fs fs'"
  unfolding no_file_written_def mkdir_recursive_def
  using mkdir_each_node by (metis node.distinct(1) option.inject)

lemma no_file_written_delete: "no_file_written fs (AList.delete p fs)"
  by (simp add: no_file_written_def node_at_delete split: if_splits)

lemma expire_old_history_Inr:
  "expire_old_history p c ts now w = Inr w2 \<Longrightarrow>
     calls w2 = calls w \<and> (files w2 = files w \<or> files w2 = AList.delete p (files w))"
  by (auto simp: expire_old_history_def unlink_cases split: option.splits if_splits)

lemma ask_model_trace:
  "ask_model model h q imgs w = (r, w3) \<Longrightarrow>
     files w3 = files w \<and>
     (\<exists>n. calls w3 = calls w
        @ take n [CountTokens (flattenedChatHistory h @ [Text q] @ getImageParts imgs),
                  GenerateContentStream (flattenedChatHistory h @ [Text q] @ getImageParts imgs)]
       \<and> 0 < n \<and> (\<not> isl r \<longrightarrow> n = 2)
       \<and> (isl (countTokens model (flattenedChatHistory h @ [Text q] @ getImageParts imgs))
            \<longrightarrow> n = 1 \<and> isl r))"
proof -
  assume a: "ask_model model h q imgs w = (r, w3)"
  let ?c = "flattenedChatHistory h @ [Text q] @ getImageParts imgs"
  show ?thesis
  proof (cases "countTokens model ?c")
    case (Inl e)
    with a show ?thesis
      by (auto simp: ask_model_def Let_def intro!: exI[of _ 1])
  next
    case (Inr tokens)
    with a show ?thesis
      by (auto simp: ask_model_def Let_def split: sum.splits intro!: exI[of _ 2])
  qed
qed

lemma save_Inr:
  "saveChatHistoryWithTimestamp p h now w = Inr w4 \<Longrightarrow>
     calls w4 = calls w \<and> p \<noteq> [] \<and>
     (\<exists>b. files w4 =
        AList.update p (File (Stringified (Record \<lparr>history = h, timestamp = Some now\<rparr>)) b) (files w))"
  by (auto simp: saveChatHistoryWithTimestamp_def writeFile_def JSON_stringify_def node_at_root
      split: sum.splits option.splits node.splits)

lemma load_after_save:
  "saveChatHistoryWithTimestamp p h now w = Inr w4 \<Longrightarrow>
     loadChatHistoryWithTimestamp p w4 = Inr (Record \<lparr>history = h, timestamp = Some now\<rparr>)"
  by (auto dest!: save_Inr simp: load_cases node_at_update)

lemma generate_try_Inr:
  assumes "generate_try d m t1 t2 c q imgs w = (Inr res, w')"
    and "loadChatHistoryWithTimestamp (historyPathOf d c) w = Inr (Record loaded)"
  shows "\<exists>resp tok. res = \<lparr>status = 200, body = GenerateBody resp c tok\<rparr>
      \<and> loadChatHistoryWithTimestamp (historyPathOf d c) w' =
          Inr (Record \<lparr>history = history loaded @ [(q, resp)], timestamp = Some t2\<rparr>)
      \<and> calls w' = calls w @
          [CountTokens (flattenedChatHistory (history loaded) @ [Text q] @ getImageParts imgs),
           GenerateContentStream
             (flattenedChatHistory (history loaded) @ [Text q] @ getImageParts imgs)]"
proof -
  let ?hp = "historyPathOf d c"
  from assms(1) obtain fs where mk: "mkdir_recursive (historyDir d) t1 (files w) = Inr fs"
    by (auto simp: generate_try_def split: sum.splits)
  let ?w1 = "w\<lparr>files := fs\<rparr>"
  have ld: "loadChatHistoryWithTimestamp ?hp ?w1 = Inr (Record loaded)"
    using load_after_mkdir [OF mk] assms(2) by simp
  from assms(1) mk ld obtain w2 where
    ex: "expire_old_history ?hp c (timestamp loaded) t1 ?w1 = Inr w2"
    by (auto simp: generate_try_def Let_def split: sum.splits)
  from assms(1) mk ld ex obtain resp tok w3 where
    ask: "ask_model m (history loaded) q imgs w2 = (Inr (resp, tok), w3)"
    by (auto simp: generate_try_def Let_def split: sum.splits prod.splits)
  from assms(1) mk ld ex ask have
    sv: "saveChatHistoryWithTimestamp ?hp (history loaded @ [(q, resp)]) t2 w3 = Inr w'"
    and res: "res = \<lparr>status = 200, body = GenerateBody resp c tok\<rparr>"
    by (auto simp: generate_try_def Let_def split: sum.splits prod.splits)
  from ask_model_trace [OF ask] have
    "calls w3 = calls w2 @
       [CountTokens (flattenedChatHistory (history loaded) @ [Text q] @ getImageParts imgs),
        GenerateContentStream
          (flattenedChatHistory (history loaded) @ [Text q] @ getImageParts imgs)]"
    by auto
  moreover have "calls w2 = calls w"
    using expire_old_history_Inr [OF ex] by simp
  moreover have "calls w' = calls w3"
    using save_Inr [OF sv] by simp
  ultimately show ?thesis
    using res load_after_save [OF sv] by simp
qed


lemma generate_try_Inl:
  assumes "generate_try d m t1 t2 c q imgs w = (Inl e, w')"
  shows "no_file_written (files w) (files w')"
proof (cases "mkdir_recursive (historyDir d) t1 (files w)")
  case (Inl e1)
  with assms show ?thesis
    by (auto simp: generate_try_def no_file_written_refl)
next
  case (Inr fs)
  let ?hp = "historyPathOf d c"
  let ?w1 = "w\<lparr>files := fs\<rparr>"
  have a: "no_file_written (files w) fs"
    by (rule no_file_written_mkdir [OF Inr])
  obtain v where ld: "loadChatHistoryWithTimestamp ?hp ?w1 = Inr v"
    by (simp add: load_cases)
  show ?thesis
  proof (cases v)
    case Null
    with assms Inr ld a show ?thesis
      by (auto simp: generate_try_def Let_def)
  next
    case (NoHistory ts)
    show ?thesis
    proof (cases "expire_old_history ?hp c ts t1 ?w1")
      case (Inl e2)
      with assms Inr ld a NoHistory show ?thesis
        by (auto simp: generate_try_def Let_def)
    next
      case ex: (Inr w2)
      have b: "no_file_written fs (files w2)"
        using expire_old_history_Inr [OF ex] no_file_written_delete [of fs ?hp]
        by (auto simp: no_file_written_refl)
      from assms Inr ld ex NoHistory have "w' = w2"
        by (auto simp: generate_try_def Let_def)
      with a b show ?thesis
        by (auto intro: no_file_written_trans)
    qed
  next
    case (Record loaded)
    show ?thesis
    proof (cases "expire_old_history ?hp c (timestamp loaded) t1 ?w1")
      case (Inl e2)
      with assms Inr ld a Record show ?thesis
        by (auto simp: generate_try_def Let_def)
    next
      case ex: (Inr w2)
      have b: "no_file_written fs (files w2)"
        using expire_old_history_Inr [OF ex] no_file_written_delete [of fs ?hp]
        by (auto simp: no_file_written_refl)
      obtain r3 w3 where ask: "ask_model m (history loaded) q imgs w2 = (r3, w3)"
        by (cases "ask_model m (history loaded) q imgs w2") auto
      have c: "files w3 = files w2"
        using ask_model_trace [OF ask] by simp
      from assms Inr ld ex ask Record have "w' = w3"
        by (auto simp: generate_try_def Let_def split: sum.splits prod.splits)
      with a b c show ?thesis
        by (auto intro: no_file_written_trans)
    qed
  qed
qed

lemma generate_try_trace:
  assumes "generate_try d m t1 t2 c q imgs w = (r, w')"
    and "loadChatHistoryWithTimestamp (historyPathOf d c) w = Inr (Record loaded)"
  shows "\<exists>n. calls w' = calls w @ take n
           [CountTokens (flattenedChatHistory (history loaded) @ [Text q] @ getImageParts imgs),
            GenerateContentStream
              (flattenedChatHistory (history loaded) @ [Text q] @ getImageParts imgs)]
         \<and> (isl (countTokens m
               (flattenedChatHistory (history loaded) @ [Text q] @ getImageParts imgs))
             \<longrightarrow> n \<le> 1 \<and> isl r)"
proof (cases "mkdir_recursive (historyDir d) t1 (files w)")
  case (Inl e1)
  with assms show ?thesis
    by (auto simp: generate_try_def intro!: exI[of _ 0])
next
  case (Inr fs)
  let ?hp = "historyPathOf d c"
  let ?w1 = "w\<lparr>files := fs\<rparr>"
  have ld: "loadChatHistoryWithTimestamp ?hp ?w1 = Inr (Record loaded)"
    using load_after_mkdir [OF Inr] assms(2) by simp
  show ?thesis
  proof (cases "expire_old_history ?hp c (timestamp loaded) t1 ?w1")
    case (Inl e2)
    with assms Inr ld show ?thesis
      by (auto simp: generate_try_def Let_def intro!: exI[of _ 0])
  next
    case ex: (Inr w2)
    have b: "calls w2 = calls w"
      using expire_old_history_Inr [OF ex] by simp
    obtain r3 w3 where ask: "ask_model m (history loaded) q imgs w2 = (r3, w3)"
      by (cases "ask_model m (history loaded) q imgs w2") auto
    from ask_model_trace [OF ask] obtain n where
      n: "calls w3 = calls w2 @ take n
           [CountTokens (flattenedChatHistory (history loaded) @ [Text q] @ getImageParts imgs),
            GenerateContentStream
              (flattenedChatHistory (history loaded) @ [Text q] @ getImageParts imgs)]"
      and f: "isl (countTokens m
               (flattenedChatHistory (history loaded) @ [Text q] @ getImageParts imgs))
             \<longrightarrow> n = 1 \<and> isl r3"
      by blast
    have "calls w' = calls w3 \<and> (isl r3 \<longrightarrow> isl r)"
      using assms(1) Inr ld ex ask
      by (auto simp: generate_try_def Let_def split: sum.splits prod.splits dest: save_Inr)
    with n b f show ?thesis
      by (intro exI[of _ n]) auto
  qed
qed

lemma route_generate_request:
  assumes "get_property rq ''chatid'' = Some c" and "c \<noteq> []"
    and "get_property rq ''query'' = Some q" and "\<not> is_clear_query q"
  shows "gemini_try d m t1 t2 rq w =
           generate_try d m t1 t2 c q (rest_properties [''query'', ''chatid''] rq) w"
  using assms by (simp add: gemini_try_def)



text \<open>
  C1 fails on the code. The record of \<^verbatim>\<open>c1\<close> in \<open>stored_world\<close> was written at 5000;
  at 3605001 it is older than an hour. The route unlinks the file (the console shows it)
  but keeps the \<open>chatHistory\<close> it loaded: the expired turn is sent to the model and
  written back with the new turn.
\<close>

theorem expired_history_still_used:
  "loadChatHistoryWithTimestamp (historyPathOf app_dir ''c1'') stored_world =
     Inr (Record \<lparr>history = [(''Hi'', ''Hello'')], timestamp = Some 5000\<rparr>)
   \<and> maxAgeMs < 3605001 - 5000
   \<and> gemini_route app_dir helpful_model 3605001 3606000
        [(''query'', ''Again''), (''chatid'', ''c1'')] stored_world =
       (\<lparr>status = 200, body = GenerateBody ''Hello'' ''c1'' 3\<rparr>,
        \<lparr>files =
           [([''srv''], Dir 1000), ([''srv'', ''app''], Dir 1000),
            ([''srv'', ''app'', ''history''], Dir 1000),
            ([''srv'', ''app'', ''history'', ''c1.json''],
             File (Stringified (Record \<lparr>history = [(''Hi'', ''Hello''), (''Again'', ''Hello'')],
                                timestamp = Some 3606000\<rparr>)) 3606000)],
         calls =
           [CountTokens [Text ''Hi'', Text ''Hello'', Text ''Again''],
            GenerateContentStream [Text ''Hi'', Text ''Hello'', Text ''Again'']],
         console = [Log ''Deleted old chat history file: c1.json'', LogTokens 3]\<rparr>)"
  by code_simp

text \<open>
  C2, as the claim states it, fails: when \<^verbatim>\<open>countTokens\<close> rejects, the \<^verbatim>\<open>catch\<close> of
  the route answers HTTP 500; \<^verbatim>\<open>generateContentStream\<close> is never called and nothing is
  saved.
\<close>

theorem token_count_failure_is_500:
  "gemini_route app_dir quota_model 6000 7000
     [(''query'', ''Again''), (''chatid'', ''c1'')] stored_world =
     (\<lparr>status = 500, body = ErrorBody ''Internal server error.''\<rparr>,
      stored_world
        \<lparr>calls := [CountTokens [Text ''Hi'', Text ''Hello'', Text ''Again'']],
         console := [LogError [] (ApiError ''quota'')]\<rparr>)"
  by code_simp

text \<open>
  C2, amended. In a generate request (a non-empty \<^verbatim>\<open>chatid\<close>, a query that is not a
  clear phrase), when \<^verbatim>\<open>countTokens\<close> fails on the composed request the flow is
  aborted: the answer is HTTP 500 with \<^verbatim>\<open>{ error: "Internal server error." }\<close>, the
  only model call made is that token count (none when the route failed before it), and
  no file is created or changed, so no turn is committed.
\<close>

theorem token_count_failure_aborts:
  assumes "get_property req_query ''chatid'' = Some chatid" and "chatid \<noteq> []"
    and "get_property req_query ''query'' = Some query" and "\<not> is_clear_query query"
    and "loadChatHistoryWithTimestamp (historyPathOf dirname chatid) w = Inr (Record loaded)"
    and "countTokens model
           (flattenedChatHistory (history loaded) @ [Text query]
              @ getImageParts (rest_properties [''query'', ''chatid''] req_query)) = Inl e"
  shows "fst (gemini_route dirname model now_load now_save req_query w) =
           \<lparr>status = 500, body = ErrorBody ''Internal server error.''\<rparr>
       \<and> (calls (snd (gemini_route dirname model now_load now_save req_query w)) = calls w
          \<or> calls (snd (gemini_route dirname model now_load now_save req_query w)) =
              calls w @ [CountTokens
                (flattenedChatHistory (history loaded) @ [Text query]
                   @ getImageParts (rest_properties [''query'', ''chatid''] req_query))])
       \<and> no_file_written (files w)
            (files (snd (gemini_route dirname model now_load now_save req_query w)))"
proof -
  let ?imgs = "rest_properties [''query'', ''chatid''] req_query"
  let ?X = "flattenedChatHistory (history loaded) @ [Text query] @ getImageParts ?imgs"
  obtain r w1 where g: "generate_try dirname model now_load now_save chatid query ?imgs w
      = (r, w1)"
    by (cases "generate_try dirname model now_load now_save chatid query ?imgs w") auto
  have t: "gemini_try dirname model now_load now_save req_query w = (r, w1)"
    using route_generate_request [OF assms(1-4)] g by simp
  from generate_try_trace [OF g assms(5)] assms(6) obtain n where
    n: "calls w1 = calls w @ take n [CountTokens ?X, GenerateContentStream ?X]"
    and le: "n \<le> 1" and "isl r"
    by auto
  then obtain e1 where r: "r = Inl e1"
    by (cases r) auto
  have route: "gemini_route dirname model now_load now_save req_query w =
      (\<lparr>status = 500, body = ErrorBody ''Internal server error.''\<rparr>,
       w1\<lparr>console := console w1 @ [LogError [] e1]\<rparr>)"
    using t r by (simp add: gemini_route_def)
  have "n = 0 \<or> n = 1"
    using le by auto
  then have c: "calls w1 = calls w \<or> calls w1 = calls w @ [CountTokens ?X]"
    using n by auto
  have "no_file_written (files w) (files w1)"
    using generate_try_Inl g r by blast
  with route c show ?thesis
    by simp
qed

theorem token_count_failure_aborts_witness:
  "fst (gemini_route app_dir quota_model 6000 7000
          [(''query'', ''Again''), (''chatid'', ''c1'')] stored_world) =
     \<lparr>status = 500, body = ErrorBody ''Internal server error.''\<rparr>
   \<and> no_file_written (files stored_world)
       (files (snd (gemini_route app_dir quota_model 6000 7000
          [(''query'', ''Again''), (''chatid'', ''c1'')] stored_world)))"
proof -
  let ?q = "[(''query'', ''Again''), (''chatid'', ''c1'')]"
  have a: "get_property ?q ''chatid'' = Some ''c1''" and b: "''c1'' \<noteq> []"
    and c: "get_property ?q ''query'' = Some ''Again''"
    by (simp_all add: get_property_def)
  have d: "\<not> is_clear_query ''Again''"
    by code_simp
  have l: "loadChatHistoryWithTimestamp (historyPathOf app_dir ''c1'') stored_world =
      Inr (Record \<lparr>history = [(''Hi'', ''Hello'')], timestamp = Some 5000\<rparr>)"
    by code_simp
  have f: "countTokens quota_model
           (flattenedChatHistory (history \<lparr>history = [(''Hi'', ''Hello'')], timestamp = Some 5000\<rparr>)
              @ [Text ''Again''] @ getImageParts (rest_properties [''query'', ''chatid''] ?q))
        = Inl (ApiError ''quota'')"
    by (simp add: quota_model_def)
  show ?thesis
    using token_count_failure_aborts [OF a b c d l f, where now_load = 6000 and now_save = 7000]
    by simp
qed

section \<open>Sequences of requests\<close>






section \<open>The request sent to the model\<close>

lemma own_properties_filter:
  "filter (\<lambda>(k, v). P k) (own_properties obj) = own_properties (filter (\<lambda>(k, v). P k) obj)"
proof -
  have "filter (\<lambda>(k, v). P k) (filter (\<lambda>(k, v). is_array_index k) obj)
      = filter (\<lambda>(k, v). is_array_index k) (filter (\<lambda>(k, v). P k) obj)"
    by (auto intro: filter_cong)
  moreover have "filter (\<lambda>(k, v). P k) (filter (\<lambda>(k, v). \<not> is_array_index k) obj)
      = filter (\<lambda>(k, v). \<not> is_array_index k) (filter (\<lambda>(k, v). P k) obj)"
    by (auto intro: filter_cong)
  ultimately show ?thesis
    by (simp add: own_properties_def filter_sort)
qed

lemma own_properties_idem: "own_properties (own_properties obj) = own_properties obj"
proof -
  let ?I = "\<lambda>(k, v). is_array_index k" and ?N = "\<lambda>(k, v). \<not> is_array_index k"
  let ?f = "\<lambda>(k, v). digits_value k"
  let ?S = "sort_key ?f (filter ?I obj)"
  have a: "filter ?I ?S = ?S" and b: "filter ?N ?S = []"
    by (auto simp: filter_id_conv filter_empty_conv)
  have c: "filter ?I (filter ?N obj) = []" and d: "filter ?N (filter ?N obj) = filter ?N obj"
    by (auto simp: filter_empty_conv)
  have e: "sort_key ?f ?S = ?S"
    by (rule sort_key_id_if_sorted) (rule sorted_sort_key)
  have "own_properties (?S @ filter ?N obj) =
      sort_key ?f (filter ?I ?S @ filter ?I (filter ?N obj))
        @ (filter ?N ?S @ filter ?N (filter ?N obj))"
    by (simp only: own_properties_def filter_append)
  also have "\<dots> = ?S @ filter ?N obj"
    by (simp only: a b c d e append_Nil append_Nil2)
  finally show ?thesis
    by (simp only: own_properties_def)
qed

lemma Object_values_rest:
  "Object_values (rest_properties [''query'', ''chatid''] req_query) =
     map snd (own_properties (extra_parameters req_query))"
  unfolding Object_values_def rest_properties_def extra_parameters_def
  by (simp only: own_properties_filter own_properties_idem)

lemma getImageParts_rest:
  "getImageParts (rest_properties [''query'', ''chatid''] req_query) =
     getImageParts (extra_parameters req_query)"
  by (simp add: getImageParts_def Object_values_rest)
    (simp add: Object_values_def)

lemma length_own_properties: "length (own_properties obj) = length obj"
  by (simp add: own_properties_def sum_length_filter_compl case_prod_unfold)

lemma length_getImageParts: "length (getImageParts obj) = length obj"
  by (simp add: getImageParts_def Object_values_def length_own_properties)

lemma nth_getImageParts:
  "i < length obj \<Longrightarrow>
     getImageParts obj ! i =
       InlineData (toBase64 (snd (own_properties obj ! i))) ''image/png'' (i + 1)"
  by (simp add: getImageParts_def Object_values_def length_own_properties nth_enumerate_eq)

lemma own_properties_plain:
  assumes "list_all (\<lambda>(k, v). \<not> is_array_index k) obj"
  shows "own_properties obj = obj"
proof -
  have "filter (\<lambda>(k, v). is_array_index k) obj = []"
    using assms by (auto simp: filter_empty_conv list_all_iff)
  moreover have "filter (\<lambda>(k, v). \<not> is_array_index k) obj = obj"
    using assms by (auto simp: filter_id_conv list_all_iff)
  ultimately show ?thesis
    by (simp add: own_properties_def)
qed

text \<open>
  C8, as the claim states it, fails: the image items follow the order in which
  \<^verbatim>\<open>Object.values\<close> enumerates the rest object, and JavaScript enumerates keys that are
  array indices first, in ascending order. The parameters \<^verbatim>\<open>2=b\<close> and \<^verbatim>\<open>1=a\<close>, supplied
  in this order, give the item of \<^verbatim>\<open>a\<close> first.
\<close>

theorem image_order_not_supplied_order:
  "calls (snd (gemini_route app_dir helpful_model 5000 6000
       [(''query'', ''Hi''), (''chatid'', ''c1''), (''2'', ''b''), (''1'', ''a'')] empty_world)) =
     [CountTokens [Text ''Hi'', InlineData (toBase64 ''a'') ''image/png'' 1,
                   InlineData (toBase64 ''b'') ''image/png'' 2],
      GenerateContentStream [Text ''Hi'', InlineData (toBase64 ''a'') ''image/png'' 1,
                   InlineData (toBase64 ''b'') ''image/png'' 2]]"
  by code_simp

text \<open>
  C8, amended. In a generate request every call to the model carries the same request:
  the stored turns flattened in order (each turn its query, then its response), then the
  new query, then exactly one item per extra parameter. The items are in the order
  \<^verbatim>\<open>Object.values\<close> enumerates the extra parameters: those whose names are array indices
  first, by ascending index, then the others in the order supplied; this is the order
  supplied when no name is an array index. The item at position \<open>i\<close>, counted from 0,
  carries the base64 text of the value, the content type \<^verbatim>\<open>image/png\<close> and the index
  \<open>i + 1\<close>. A successful request makes exactly the two calls \<^verbatim>\<open>countTokens\<close> and
  \<^verbatim>\<open>generateContentStream\<close>.
\<close>

theorem generate_request_contents:
  assumes "get_property req_query ''chatid'' = Some chatid" and "chatid \<noteq> []"
    and "get_property req_query ''query'' = Some query" and "\<not> is_clear_query query"
    and "loadChatHistoryWithTimestamp (historyPathOf dirname chatid) w = Inr (Record loaded)"
    and "gemini_route dirname model now_load now_save req_query w = (res, w')"
    and "contents = concat (map (\<lambda>(q, r). [Text q, Text r]) (history loaded)) @ [Text query]
           @ getImageParts (extra_parameters req_query)"
  shows "(\<exists>n. calls w' = calls w @ take n [CountTokens contents, GenerateContentStream contents])
       \<and> (is_generated res \<longrightarrow>
            calls w' = calls w @ [CountTokens contents, GenerateContentStream contents])
       \<and> length (getImageParts (extra_parameters req_query))
           = length (extra_parameters req_query)
       \<and> (\<forall>i < length (extra_parameters req_query).
            getImageParts (extra_parameters req_query) ! i =
              InlineData (toBase64 (snd (own_properties (extra_parameters req_query) ! i)))
                ''image/png'' (i + 1))
       \<and> (list_all (\<lambda>(k, v). \<not> is_array_index k) (extra_parameters req_query) \<longrightarrow>
            own_properties (extra_parameters req_query) = extra_parameters req_query)"
proof -
  let ?imgs = "rest_properties [''query'', ''chatid''] req_query"
  have X: "contents = flattenedChatHistory (history loaded) @ [Text query] @ getImageParts ?imgs"
    using assms(7) by (simp add: flattenedChatHistory_def getImageParts_rest)
  obtain r w1 where g: "generate_try dirname model now_load now_save chatid query ?imgs w
      = (r, w1)"
    by (cases "generate_try dirname model now_load now_save chatid query ?imgs w") auto
  have t: "gemini_try dirname model now_load now_save req_query w = (r, w1)"
    using route_generate_request [OF assms(1-4)] g by simp
  have c: "calls w' = calls w1"
    using assms(6) t by (auto simp: gemini_route_def split: sum.splits)
  from generate_try_trace [OF g assms(5)] obtain n where
    "calls w1 = calls w @ take n [CountTokens contents, GenerateContentStream contents]"
    unfolding X by blast
  with c have one: "\<exists>n. calls w' = calls w
      @ take n [CountTokens contents, GenerateContentStream contents]"
    by auto
  have two: "calls w' = calls w @ [CountTokens contents, GenerateContentStream contents]"
    if "is_generated res"
  proof -
    from that assms(6) t have "r = Inr res"
      by (auto simp: gemini_route_def is_generated_def split: sum.splits)
    with generate_try_Inr [OF _ assms(5)] g c show ?thesis
      unfolding X by fastforce
  qed
  from one two show ?thesis
    by (simp add: length_getImageParts nth_getImageParts own_properties_plain)
qed

theorem generate_request_contents_witness:
  "calls (snd (gemini_route app_dir helpful_model 6000 7000
       [(''query'', ''Again''), (''chatid'', ''c1''), (''second'', ''b''), (''first'', ''a'')]
       stored_world)) =
     [CountTokens [Text ''Hi'', Text ''Hello'', Text ''Again'',
        InlineData (toBase64 ''b'') ''image/png'' 1, InlineData (toBase64 ''a'') ''image/png'' 2],
      GenerateContentStream [Text ''Hi'', Text ''Hello'', Text ''Again'',
        InlineData (toBase64 ''b'') ''image/png'' 1, InlineData (toBase64 ''a'') ''image/png'' 2]]
   \<and> own_properties [(''second'', ''b''), (''first'', ''a'')] = [(''second'', ''b''), (''first'', ''a'')]"
proof -
  let ?q = "[(''query'', ''Again''), (''chatid'', ''c1''), (''second'', ''b''), (''first'', ''a'')]"
  let ?X = "[Text ''Hi'', Text ''Hello'', Text ''Again'',
        InlineData (toBase64 ''b'') ''image/png'' 1, InlineData (toBase64 ''a'') ''image/png'' 2]"
  have a: "get_property ?q ''chatid'' = Some ''c1''" and b: "''c1'' \<noteq> []"
    and c: "get_property ?q ''query'' = Some ''Again''"
    by (simp_all add: get_property_def)
  have d: "\<not> is_clear_query ''Again''"
    by code_simp
  have l: "loadChatHistoryWithTimestamp (historyPathOf app_dir ''c1'') stored_world =
      Inr (Record \<lparr>history = [(''Hi'', ''Hello'')], timestamp = Some 5000\<rparr>)"
    by code_simp
  have r: "gemini_route app_dir helpful_model 6000 7000 ?q stored_world =
      (fst (gemini_route app_dir helpful_model 6000 7000 ?q stored_world),
       snd (gemini_route app_dir helpful_model 6000 7000 ?q stored_world))"
    by simp
  have e: "extra_parameters ?q = [(''second'', ''b''), (''first'', ''a'')]"
    by (simp add: extra_parameters_def)
  have x: "?X = concat (map (\<lambda>(q, r). [Text q, Text r])
                 (history \<lparr>history = [(''Hi'', ''Hello'')], timestamp = Some 5000\<rparr>))
             @ [Text ''Again''] @ getImageParts (extra_parameters ?q)"
    unfolding e by code_simp
  have g: "is_generated (fst (gemini_route app_dir helpful_model 6000 7000 ?q stored_world))"
    by code_simp
  have p: "list_all (\<lambda>(k, v). \<not> is_array_index k) [(''second'', ''b''), (''first'', ''a'')]"
    by code_simp
  have k: "calls stored_world = []"
    by (simp add: stored_world_def)
  show ?thesis
    using generate_request_contents [OF a b c d l r x] g p k unfolding e
    by simp
qed

section \<open>Identifiers that leave the history directory\<close>

text \<open>
  C10. The \<^verbatim>\<open>chatid\<close> goes into \<^verbatim>\<open>path.join\<close> as it is. For every \<^verbatim>\<open>__dirname\<close> the
  identifier \<^verbatim>\<open>../name\<close> names \<^verbatim>\<open>name.json\<close> in \<^verbatim>\<open>__dirname\<close>, which is not inside the
  history directory, and the different identifiers \<^verbatim>\<open>x/../c1\<close> and \<^verbatim>\<open>c1\<close> name the same
  file. With a record in \<^verbatim>\<open>/srv/app/name.json\<close>, a generate request for \<^verbatim>\<open>../name\<close> reads
  that file, sends its turns to the model and writes it back, and a clear request for
  \<^verbatim>\<open>../name\<close> deletes it.
\<close>

theorem chatid_escapes_history_directory:
  "historyPathOf dirname ''../name'' = dirname @ [''name.json'']
   \<and> \<not> prefix (historyDir dirname) (historyPathOf dirname ''../name'')
   \<and> historyPathOf dirname ''x/../c1'' = historyPathOf dirname ''c1''
   \<and> ''x/../c1'' \<noteq> ''c1''
   \<and> gemini_route app_dir helpful_model 6000 7000
        [(''query'', ''Hi''), (''chatid'', ''../name'')] outside_world =
       (\<lparr>status = 200, body = GenerateBody ''Hello'' ''../name'' 3\<rparr>,
        \<lparr>files =
           [([''srv''], Dir 1000), ([''srv'', ''app''], Dir 1000),
            ([''srv'', ''app'', ''history''], Dir 1000),
            ([''srv'', ''app'', ''name.json''],
             File (Stringified (Record \<lparr>history = [(''not'', ''yours''), (''Hi'', ''Hello'')],
                                timestamp = Some 7000\<rparr>)) 5000)],
         calls =
           [CountTokens [Text ''not'', Text ''yours'', Text ''Hi''],
            GenerateContentStream [Text ''not'', Text ''yours'', Text ''Hi'']],
         console = [LogTokens 3]\<rparr>)
   \<and> files (snd (gemini_route app_dir helpful_model 6000 7000
        [(''query'', ''clear''), (''chatid'', ''../name'')] outside_world)) =
       [([''srv''], Dir 1000), ([''srv'', ''app''], Dir 1000),
        ([''srv'', ''app'', ''history''], Dir 1000)]"
proof (intro conjI)
  show a: "historyPathOf dirname ''../name'' = dirname @ [''name.json'']"
    by (simp add: historyPathOf_def historyDir_eq path_join_def normalize_segment_def)
  show "\<not> prefix (historyDir dirname) (historyPathOf dirname ''../name'')"
    by (simp add: a historyDir_eq)
  show "historyPathOf dirname ''x/../c1'' = historyPathOf dirname ''c1''"
    by (simp add: historyPathOf_def historyDir_eq path_join_def normalize_segment_def
        butlast_append)
  show "''x/../c1'' \<noteq> ''c1''"
    by simp
  show "gemini_route app_dir helpful_model 6000 7000
        [(''query'', ''Hi''), (''chatid'', ''../name'')] outside_world =
       (\<lparr>status = 200, body = GenerateBody ''Hello'' ''../name'' 3\<rparr>,
        \<lparr>files =
           [([''srv''], Dir 1000), ([''srv'', ''app''], Dir 1000),
            ([''srv'', ''app'', ''history''], Dir 1000),
            ([''srv'', ''app'', ''name.json''],
             File (Stringified (Record \<lparr>history = [(''not'', ''yours''), (''Hi'', ''Hello'')],
                                timestamp = Some 7000\<rparr>)) 5000)],
         calls =
           [CountTokens [Text ''not'', Text ''yours'', Text ''Hi''],
            GenerateContentStream [Text ''not'', Text ''yours'', Text ''Hi'']],
         console = [LogTokens 3]\<rparr>)"
    by code_simp
  show "files (snd (gemini_route app_dir helpful_model 6000 7000
        [(''query'', ''clear''), (''chatid'', ''../name'')] outside_world)) =
       [([''srv''], Dir 1000), ([''srv'', ''app''], Dir 1000),
        ([''srv'', ''app'', ''history''], Dir 1000)]"
    by code_simp
qed

section \<open>The sweep\<close>

lemma split_slash_plain: "CHR ''/'' \<notin> set name \<Longrightarrow> split_slash name = [name]"
  by (induction name) auto

lemma path_join_valid: "valid_name name \<Longrightarrow> path_join dir name = dir @ [name]"
  by (simp add: valid_name_def path_join_def split_slash_plain normalize_segment_def)

lemma snoc_path_iff:
  "p = dir @ [name] \<longleftrightarrow> p \<noteq> [] \<and> butlast p = dir \<and> last p = name"
proof
  assume "p = dir @ [name]"
  then show "p \<noteq> [] \<and> butlast p = dir \<and> last p = name"
    by simp
next
  assume "p \<noteq> [] \<and> butlast p = dir \<and> last p = name"
  then show "p = dir @ [name]"
    by (metis append_butlast_last_id)
qed

lemma sweep_file_Inr:
  assumes "valid_name name" and "sweep_file d now w name = Inr w1"
  shows "node_at (files w1) p =
     (if p = historyDir d @ [name] \<and> old_file now (node_at (files w) p)
      then None else node_at (files w) p)"
    and "calls w1 = calls w"
  using assms(2)
  by (cases "node_at (files w) (historyDir d @ [name])";
      auto simp: sweep_file_def path_join_valid [OF assms(1)] stat_birthtimeMs_def unlink_def
        old_file_def node_at_delete Let_def split: node.splits option.splits if_splits)+

lemma sweep_file_succeeds:
  assumes "valid_name name" and "node_at (files w) (historyDir d @ [name]) = Some n"
    and "\<not> old_directory now (Some n)"
  shows "\<exists>w1. sweep_file d now w name = Inr w1"
  using assms(2,3)
  by (cases n)
    (auto simp: sweep_file_def path_join_valid [OF assms(1)] stat_birthtimeMs_def unlink_def
      old_directory_def Let_def)

lemma sweep_each_Inr:
  assumes "list_all valid_name names" and "sweep_each d now names w = Inr w'"
  shows "node_at (files w') p =
       (if p \<noteq> [] \<and> butlast p = historyDir d \<and> last p \<in> set names
           \<and> old_file now (node_at (files w) p)
        then None else node_at (files w) p)
     \<and> calls w' = calls w"
  using assms
proof (induction names arbitrary: w)
  case Nil
  then show ?case by simp
next
  case (Cons name names)
  from Cons.prems(2) obtain w1 where
    one: "sweep_file d now w name = Inr w1" and rest: "sweep_each d now names w1 = Inr w'"
    by (auto split: sum.splits)
  have v: "valid_name name" and vs: "list_all valid_name names"
    using Cons.prems(1) by simp_all
  from Cons.IH [OF vs rest] sweep_file_Inr(1) [OF v one, of p] sweep_file_Inr(2) [OF v one]
  show ?case
    by (auto simp: snoc_path_iff old_file_def)
qed

lemma sweep_each_succeeds:
  assumes "list_all valid_name names" and "distinct names"
    and "\<forall>name \<in> set names. \<exists>n. node_at (files w) (historyDir d @ [name]) = Some n
           \<and> \<not> old_directory now (Some n)"
  shows "\<exists>w'. sweep_each d now names w = Inr w'"
  using assms
proof (induction names arbitrary: w)
  case Nil
  then show ?case by simp
next
  case (Cons name names)
  have v: "valid_name name" and vs: "list_all valid_name names"
    using Cons.prems(1) by simp_all
  from Cons.prems(3) obtain n where
    n: "node_at (files w) (historyDir d @ [name]) = Some n" "\<not> old_directory now (Some n)"
    by auto
  from sweep_file_succeeds [OF v n] obtain w1 where one: "sweep_file d now w name = Inr w1"
    by blast
  have "\<forall>other \<in> set names. \<exists>n. node_at (files w1) (historyDir d @ [other]) = Some n
           \<and> \<not> old_directory now (Some n)"
  proof
    fix other
    assume o: "other \<in> set names"
    with Cons.prems(2) have "other \<noteq> name"
      by auto
    then have "node_at (files w1) (historyDir d @ [other])
        = node_at (files w) (historyDir d @ [other])"
      using sweep_file_Inr(1) [OF v one, of "historyDir d @ [other]"] by simp
    with Cons.prems(3) o show "\<exists>n. node_at (files w1) (historyDir d @ [other]) = Some n
           \<and> \<not> old_directory now (Some n)"
      by simp
  qed
  with Cons.IH [OF vs, of w1] Cons.prems(2) obtain w' where
    "sweep_each d now names w1 = Inr w'"
    by auto
  with one show ?case
    by simp
qed

lemma readdir_Inr:
  assumes "readdir dir fs = Inr names" and "names_valid fs"
  shows "list_all valid_name names" and "distinct names"
    and "p \<noteq> [] \<Longrightarrow> butlast p = dir \<Longrightarrow> node_at fs p = Some n \<Longrightarrow> last p \<in> set names"
    and "name \<in> set names \<Longrightarrow> \<exists>n. node_at fs (dir @ [name]) = Some n"
proof -
  have names: "names = remdups (map (last \<circ> fst)
      (filter (\<lambda>(p, n). p \<noteq> [] \<and> butlast p = dir) fs))"
    using assms(1) by (auto simp: readdir_def split: option.splits node.splits)
  show "list_all valid_name names"
    using assms(2) unfolding names names_valid_def list_all_iff
    by (auto simp: last_in_set)
  show "distinct names"
    unfolding names by simp
  show "last p \<in> set names" if "p \<noteq> []" "butlast p = dir" "node_at fs p = Some n"
  proof -
    from that have "(p, n) \<in> set fs"
      by (auto simp: node_at_def dest: map_of_SomeD)
    with that show ?thesis
      unfolding names by force
  qed
  show "\<exists>n. node_at fs (dir @ [name]) = Some n" if "name \<in> set names"
  proof -
    from that obtain q m where q: "(q, m) \<in> set fs" "q \<noteq> []" "butlast q = dir" "last q = name"
      unfolding names by auto
    then have "q = dir @ [name]"
      by (simp add: snoc_path_iff)
    with q(1) have "map_of fs (dir @ [name]) \<noteq> None"
      by (metis map_of_eq_None_iff fst_conv image_eqI)
    then show ?thesis
      by (auto simp: node_at_def)
  qed
qed

text \<open>
  An old subdirectory of the history directory makes the sweep fail: \<^verbatim>\<open>unlink\<close> rejects
  with \<open>EISDIR\<close> and nothing handles the rejection.
\<close>

lemma sweep_rejects_on_old_directory:
  "deleteOldChatHistoryFiles app_dir 3700000 cluttered_world = Inl EISDIR"
  by code_simp

text \<open>
  C4, as the claim states it, fails: the sweep compares the birth time of the file
  (\<^verbatim>\<open>stats.birthtimeMs\<close>), not the \<^verbatim>\<open>timestamp\<close> stored in it. The record of \<^verbatim>\<open>c1\<close> in
  \<open>aged_world\<close> was rewritten at 3541000, two minutes before the sweep at 3660000, in
  a file born at 2000: the sweep deletes it.
\<close>

theorem sweep_deletes_fresh_record:
  "node_at (files aged_world) (historyPathOf app_dir ''c1'') =
     Some (File (Stringified (Record \<lparr>history = [(''Hi'', ''Hello''), (''Again'', ''Hello'')],
                              timestamp = Some 3541000\<rparr>)) 2000)
   \<and> \<not> maxAgeMs < 3660000 - 3541000
   \<and> deleteOldChatHistoryFiles app_dir 3660000 aged_world =
       Inr (aged_world
         \<lparr>files :=
            [([''srv''], Dir 1000), ([''srv'', ''app''], Dir 1000),
             ([''srv'', ''app'', ''history''], Dir 1000)],
          console := console aged_world @ [Log ''Deleted old chat history file: c1.json'']\<rparr>)"
  by code_simp

text \<open>
  C4, amended. When the history directory can be listed and none of its entries is a
  directory older than \<open>maxAgeMs\<close>, so that no \<^verbatim>\<open>stat\<close> and no \<^verbatim>\<open>unlink\<close> fails, the sweep
  completes and deletes exactly the regular files directly in the history directory
  whose birth time is more than \<open>maxAgeMs\<close> before now, whatever \<^verbatim>\<open>timestamp\<close> they
  store; every other node of the file system stays as it was, and no model call is
  made. The period of the timer is \<open>maxAgeMs\<close>.
\<close>

theorem sweep_deletes_by_birth_time:
  assumes "readdir (historyDir dirname) (files w) = Inr names"
    and "names_valid (files w)"
    and "\<forall>p. butlast p = historyDir dirname \<longrightarrow> \<not> old_directory now (node_at (files w) p)"
  shows "(\<exists>w'. deleteOldChatHistoryFiles dirname now w = Inr w'
            \<and> (\<forall>p. node_at (files w') p =
                 (if p \<noteq> [] \<and> butlast p = historyDir dirname
                     \<and> old_file now (node_at (files w) p)
                  then None else node_at (files w) p))
            \<and> calls w' = calls w)
       \<and> sweepIntervalMs = maxAgeMs"
proof -
  note rd = readdir_Inr [OF assms(1,2)]
  have "\<forall>name \<in> set names. \<exists>n. node_at (files w) (historyDir dirname @ [name]) = Some n
           \<and> \<not> old_directory now (Some n)"
  proof
    fix name
    assume "name \<in> set names"
    from rd(4) [OF this] obtain n where
      n: "node_at (files w) (historyDir dirname @ [name]) = Some n"
      by blast
    with assms(3) have "\<not> old_directory now (Some n)"
      by (metis butlast_snoc)
    with n show "\<exists>n. node_at (files w) (historyDir dirname @ [name]) = Some n
           \<and> \<not> old_directory now (Some n)"
      by blast
  qed
  from sweep_each_succeeds [OF rd(1) rd(2) this] obtain w' where
    w': "sweep_each dirname now names w = Inr w'"
    by blast
  have d: "deleteOldChatHistoryFiles dirname now w = Inr w'"
    using assms(1) w' by (simp add: deleteOldChatHistoryFiles_def)
  have "node_at (files w') p =
      (if p \<noteq> [] \<and> butlast p = historyDir dirname \<and> old_file now (node_at (files w) p)
       then None else node_at (files w) p)" for p
  proof -
    have "last p \<in> set names"
      if "p \<noteq> []" "butlast p = historyDir dirname" "old_file now (node_at (files w) p)"
      using that rd(3) [of p] by (auto simp: old_file_def split: option.splits)
    with sweep_each_Inr [OF rd(1) w', of p] show ?thesis
      by auto
  qed
  moreover have "calls w' = calls w"
    using sweep_each_Inr [OF rd(1) w'] by simp
  ultimately show ?thesis
    using d by (simp add: sweepIntervalMs_def maxAgeMs_def)
qed

theorem sweep_deletes_by_birth_time_witness:
  "\<exists>w'. deleteOldChatHistoryFiles app_dir 3700000 tidy_world = Inr w'
     \<and> node_at (files w') [''srv'', ''app'', ''history'', ''attic''] = Some (Dir 3000000)
     \<and> node_at (files w') [''srv'', ''app'', ''history'', ''c1.json''] = None
     \<and> node_at (files w') [''srv'', ''app'', ''history'', ''c2.json''] =
         Some (File (Stringified (Record \<lparr>history = [(''Hi'', ''Hello'')],
                                          timestamp = Some 3000000\<rparr>)) 3000000)"
proof -
  have r: "readdir (historyDir app_dir) (files tidy_world) =
      Inr [''attic'', ''c1.json'', ''c2.json'']"
    by code_simp
  have v: "names_valid (files tidy_world)"
    by code_simp
  have h: "historyDir app_dir = [''srv'', ''app'', ''history'']"
    by (simp add: historyDir_eq app_dir_def)
  have o: "\<forall>p. butlast p = historyDir app_dir \<longrightarrow>
      \<not> old_directory 3700000 (node_at (files tidy_world) p)"
    by (auto simp: h tidy_world_def node_at_def old_directory_def maxAgeMs_def)
  have a: "node_at (files tidy_world) [''srv'', ''app'', ''history'', ''attic'']
      = Some (Dir 3000000)"
    and b: "node_at (files tidy_world) [''srv'', ''app'', ''history'', ''c1.json'']
      = Some (File (Stringified (Record \<lparr>history = [(''Hi'', ''Hello'')],
                                         timestamp = Some 5000\<rparr>)) 5000)"
    and c: "node_at (files tidy_world) [''srv'', ''app'', ''history'', ''c2.json'']
      = Some (File (Stringified (Record \<lparr>history = [(''Hi'', ''Hello'')],
                                         timestamp = Some 3000000\<rparr>)) 3000000)"
    by (simp_all add: tidy_world_def node_at_def)
  from sweep_deletes_by_birth_time [OF r v o] obtain w' where
    d: "deleteOldChatHistoryFiles app_dir 3700000 tidy_world = Inr w'"
    and n: "\<And>p. node_at (files w') p =
         (if p \<noteq> [] \<and> butlast p = historyDir app_dir
             \<and> old_file 3700000 (node_at (files tidy_world) p)
          then None else node_at (files tidy_world) p)"
    by blast
  show ?thesis
    using d n [of "[''srv'', ''app'', ''history'', ''attic'']"]
      n [of "[''srv'', ''app'', ''history'', ''c1.json'']"]
      n [of "[''srv'', ''app'', ''history'', ''c2.json'']"]
    by (simp add: a b c h old_file_def maxAgeMs_def)
qed

end
